theory Spec2Isabelle
  imports Complex_Main
begin

section \<open>Numbers and API records of the web client\<close>

text \<open>
  A JavaScript number is a binary64 float and is modelled as the real it denotes. On the
  dashboard, where a rounded sum is compared with a threshold, every arithmetic operation
  is rounded as the engine rounds it and a decimal literal is the double nearest to it;
  the other pages are modelled with exact arithmetic.
  A field the pages guard with \<open>||\<close> or \<open>?.\<close> may be missing in the API response and
  is an option; every other field is a number or string as the API delivers it, a number
  of the response being the double that \<open>JSON.parse\<close> made of it.
\<close>

text \<open>Rounding to the nearest integer, a tie going to the even one.\<close>

definition round_even :: "real \<Rightarrow> int" where
  "round_even m =
     (let f = \<lfloor>m\<rfloor>; d = m - of_int f in
      if d < 1 / 2 then f else if d > 1 / 2 then f + 1 else if even f then f else f + 1)"

text \<open>
  Scaling a magnitude \<open>m * u\<close> until the significand \<open>m\<close> lies in \<open>[2^52, 2^53)\<close>: at
  most 971 halvings for the largest doubles, at most 1074 doublings, where the unit
  \<open>u\<close> has reached \<open>2^-1074\<close> and the number is subnormal.
\<close>

fun halve :: "nat \<Rightarrow> real \<Rightarrow> real \<Rightarrow> real \<times> real" where
  "halve 0 m u = (m, u)"
| "halve (Suc n) m u = (if m \<ge> 2 ^ 53 then halve n (m / 2) (u * 2) else (m, u))"

fun double :: "nat \<Rightarrow> real \<Rightarrow> real \<Rightarrow> real \<times> real" where
  "double 0 m u = (m, u)"
| "double (Suc n) m u = (if m < 2 ^ 52 then double n (m * 2) (u / 2) else (m, u))"

text \<open>
  The double nearest to a real, ties to even: what a decimal literal denotes and what
  each arithmetic operation returns for its exact result. Results of magnitude \<open>2^1024\<close>
  and more, which the engine turns into \<open>Infinity\<close>, are outside the model.
\<close>

definition binary64 :: "real \<Rightarrow> real" where
  "binary64 x =
     (case halve 971 \<bar>x\<bar> 1 of (m, u) \<Rightarrow>
      case double 1074 m u of (m', u') \<Rightarrow>
        sgn x * (of_int (round_even m') * u'))"

text \<open>\<open>x || d\<close> on an optional number: a missing value and 0 are both falsy.\<close>

definition js_or :: "real option \<Rightarrow> real \<Rightarrow> real" where
  "js_or x d = (case x of None \<Rightarrow> d | Some v \<Rightarrow> if v = 0 then d else v)"

record holding =
  symbol :: string
  weight :: real
  quantity :: real
  avg_price :: real
  current_price :: real
  confidence_score :: real
  predicted_return :: real

record portfolio =
  pid :: string
  name :: string
  total_value :: "real option"
  volatility :: "real option"
  holdings :: "holding list option"

section \<open>Dashboard.jsx: generateAiInsights\<close>

datatype insight_type = Info | Action | Opportunity | Warning

text \<open>
  The description strings interpolate numbers through \<open>toFixed\<close>; the model keeps the
  interpolated number instead of its decimal rendering.
\<close>

datatype description =
  WelcomeText
  | DriftText real
  | SignalText real real
  | VolatilityText

record insight =
  title :: string
  description :: description
  confidence :: real
  itype :: insight_type

definition welcome_insight :: insight where
  "welcome_insight =
     \<lparr>title = ''Welcome to AutoInvest'', description = WelcomeText,
      confidence = 100, itype = Info\<rparr>"

text \<open>\<open>portfolio.holdings.reduce((sum, h) => sum + h.weight, 0)\<close>, each addition rounded.\<close>

definition totalWeight :: "holding list \<Rightarrow> real" where
  "totalWeight hs = foldl (\<lambda>sum h. binary64 (sum + weight h)) 0 hs"

text \<open>\<open>Math.abs(totalWeight - 1.0)\<close>; the absolute value of a double is exact.\<close>

definition drift :: "holding list \<Rightarrow> real" where
  "drift hs = \<bar>binary64 (totalWeight hs - 1)\<bar>"

definition rebalance_insight :: "portfolio \<Rightarrow> real \<Rightarrow> insight" where
  "rebalance_insight p d =
     \<lparr>title = ''Rebalancing Recommended: '' @ name p,
      description = DriftText (binary64 (d * 100)),
      confidence = min 95 (binary64 (70 + binary64 (d * 100))),
      itype = Action\<rparr>"

definition signal_insight :: "holding \<Rightarrow> insight" where
  "signal_insight h =
     \<lparr>title = ''Strong Buy Signal: '' @ symbol h,
      description =
        SignalText (binary64 (predicted_return h * 100)) (binary64 (confidence_score h * 100)),
      confidence = binary64 (confidence_score h * 100),
      itype = Opportunity\<rparr>"

definition volatility_insight :: insight where
  "volatility_insight =
     \<lparr>title = ''Elevated Volatility Detected'', description = VolatilityText,
      confidence = 75, itype = Warning\<rparr>"

text \<open>The inner \<open>holdings.forEach\<close>: one push per holding with a strong signal.\<close>

definition signal_insights :: "holding list \<Rightarrow> insight list" where
  "signal_insights hs =
     map signal_insight
       (filter (\<lambda>h. confidence_score h > binary64 0.8 \<and> predicted_return h > binary64 0.1) hs)"

text \<open>The body of \<open>portfolios.forEach\<close>: what one portfolio pushes onto \<open>insights\<close>.\<close>

definition portfolio_insights :: "portfolio \<Rightarrow> insight list" where
  "portfolio_insights p =
     (case holdings p of
        None \<Rightarrow> []
      | Some hs \<Rightarrow>
          if length hs > 0 then
            (if drift hs > binary64 0.05 then [rebalance_insight p (drift hs)] else [])
            @ signal_insights hs
          else [])"

definition avgVolatility :: "portfolio list \<Rightarrow> real" where
  "avgVolatility ps =
     binary64 (foldl (\<lambda>sum p. binary64 (sum + js_or (volatility p) 0)) 0 ps / real (length ps))"

text \<open>
  The list handed to \<open>setAiInsights\<close>. The argument is the \<open>response.data\<close> array, which
  the caller has already tested for truthiness.
\<close>

definition generateAiInsights :: "portfolio list \<Rightarrow> insight list" where
  "generateAiInsights ps =
     (if length ps = 0 then [welcome_insight]
      else
        let insights = concat (map portfolio_insights ps);
            insights' = insights @
              (if avgVolatility ps > binary64 0.2 then [volatility_insight] else [])
        in take 3 insights')"

text \<open>
  The part of the component state that \<open>fetchPortfolioData\<close> writes. The function runs
  once on mount and then on every tick of the 60 second \<open>setInterval\<close>.
\<close>

record dashboard =
  portfolios :: "portfolio list"
  totalValue :: real
  totalReturn :: real
  aiInsights :: "insight list"

text \<open>
  \<open>returnValue += (current - cost)\<close> over the holdings of one portfolio, continuing the
  running total \<open>r\<close>.
\<close>

definition holdings_return :: "real \<Rightarrow> holding list \<Rightarrow> real" where
  "holdings_return r hs =
     foldl (\<lambda>r h. binary64 (r + binary64 (binary64 (current_price h * quantity h)
                                       - binary64 (avg_price h * quantity h)))) r hs"

definition portfolios_value :: "portfolio list \<Rightarrow> real" where
  "portfolios_value ps = foldl (\<lambda>v p. binary64 (v + js_or (total_value p) 0)) 0 ps"

definition portfolios_return :: "portfolio list \<Rightarrow> real" where
  "portfolios_return ps =
     foldl (\<lambda>r p. case holdings p of None \<Rightarrow> r | Some hs \<Rightarrow> holdings_return r hs) 0 ps"

text \<open>
  The response is \<open>None\<close> when the request throws or carries no data: then only a toast
  is shown and the four fields keep their values.
\<close>

definition fetchPortfolioData :: "portfolio list option \<Rightarrow> dashboard \<Rightarrow> dashboard" where
  "fetchPortfolioData response d =
     (case response of
        None \<Rightarrow> d
      | Some data \<Rightarrow>
          d\<lparr>portfolios := data,
            totalValue := portfolios_value data,
            totalReturn := portfolios_return data,
            aiInsights := generateAiInsights data\<rparr>)"

text \<open>The successive refreshes, with the list set by each one that called \<open>setAiInsights\<close>.\<close>

fun refreshes :: "portfolio list option list \<Rightarrow> dashboard \<Rightarrow> dashboard \<times> insight list list" where
  "refreshes [] d = (d, [])"
| "refreshes (r # rs) d =
     (let d' = fetchPortfolioData r d;
          (d'', emitted) = refreshes rs d'
      in (d'', (case r of None \<Rightarrow> [] | Some data \<Rightarrow> [aiInsights d']) @ emitted))"

text \<open>
  The aggregate drift in the words of the specification, for comparison: the sum over
  the assets of the absolute difference between current and target weight.
\<close>

definition aggregate_drift_spec :: "(real \<times> real) list \<Rightarrow> real" where
  "aggregate_drift_spec cts = (\<Sum>(c, t) \<leftarrow> cts. \<bar>c - t\<bar>)"

section \<open>Portfolio page: day change, return percentage, insights\<close>


text \<open>\<open>portfolio?.total_value || 0\<close>, where \<open>portfolio\<close> is \<open>null\<close> until loaded.\<close>

definition page_totalValue :: "portfolio option \<Rightarrow> real" where
  "page_totalValue p = (case p of None \<Rightarrow> 0 | Some q \<Rightarrow> js_or (total_value q) 0)"




datatype advice = Buy | Reduce | Hold

datatype reason = StrongReturn real | NegativeOutlook real | StableExpected

record page_insight =
  advice_type :: advice
  for_symbol :: string
  confidence_pct :: int
  reason :: reason

text \<open>\<open>Math.round\<close> rounds half up.\<close>

definition Math_round :: "real \<Rightarrow> int" where
  "Math_round x = \<lfloor>x + 1 / 2\<rfloor>"

definition holding_insight :: "holding \<Rightarrow> page_insight" where
  "holding_insight h =
     \<lparr>advice_type = (if predicted_return h > 0.05 then Buy
                      else if predicted_return h < - 0.05 then Reduce else Hold),
      for_symbol = symbol h,
      confidence_pct =
        Math_round ((if confidence_score h = 0 then 0.5 else confidence_score h) * 100),
      reason = (if predicted_return h > 0.05 then StrongReturn (predicted_return h * 100)
                else if predicted_return h < - 0.05 then NegativeOutlook (predicted_return h * 100)
                else StableExpected)\<rparr>"

definition generateAiInsights_page :: "holding list \<Rightarrow> page_insight list" where
  "generateAiInsights_page hs =
     (if length hs = 0 then []
      else take 5 (map holding_insight
             (filter (\<lambda>h. symbol h \<noteq> ''CASH'' \<and> confidence_score h > 0.7) hs)))"

section \<open>DepositWithdraw.jsx: handleWithdraw\<close>

text \<open>What \<open>parseFloat\<close> can return.\<close>

datatype jsnum = NaN | NegInfinity | Num real | PosInfinity

text \<open>\<open>!x\<close> on a number: only \<open>NaN\<close> and zero are falsy.\<close>

fun falsy :: "jsnum \<Rightarrow> bool" where
  "falsy NaN = True"
| "falsy (Num r) = (r = 0)"
| "falsy _ = False"

text \<open>\<open>x <= 0\<close>\<close>

fun le_zero :: "jsnum \<Rightarrow> bool" where
  "le_zero NaN = False"
| "le_zero NegInfinity = True"
| "le_zero (Num r) = (r \<le> 0)"
| "le_zero PosInfinity = False"

text \<open>\<open>x > b\<close> for a finite \<open>b\<close>\<close>

fun gt_num :: "jsnum \<Rightarrow> real \<Rightarrow> bool" where
  "gt_num NaN b = False"
| "gt_num NegInfinity b = False"
| "gt_num (Num r) b = (r > b)"
| "gt_num PosInfinity b = True"

datatype tx_kind = Deposit | Withdrawal

record transaction =
  tx_id :: nat
  tx_type :: tx_kind
  tx_amount :: real
  tx_date :: string
  tx_status :: string

datatype toast =
  ToastError string
  | ToastWithdrew real

datatype api_call =
  UpdatePreferences real
  | UpdatePortfolio string real
  | GetPreferences
  | GetAllPortfolios

text \<open>
  The component state of the page, with the two effects that leave it: the toasts shown
  and the requests sent to the API, both in the order they happen.
\<close>

record wallet =
  amount :: string
  balance :: real
  wallet_portfolios :: "portfolio list"
  selectedPortfolio :: string
  isLoading :: bool
  isFetching :: bool
  transactions :: "transaction list"
  toasts :: "toast list"
  api_calls :: "api_call list"

datatype 'a response = Throws | NoData | Data 'a

text \<open>
  What the page cannot decide: whether a request throws, what a read returns, and the
  clock behind \<open>Date.now()\<close> and \<open>new Date().toISOString()\<close>.
\<close>

record server =
  updatePreferences_throws :: bool
  update_throws :: bool
  getPreferences :: "real option response"
  getAll :: "portfolio list response"
  date_now :: nat
  date_iso :: string

definition mock_transactions :: "server \<Rightarrow> transaction list" where
  "mock_transactions sv =
     [\<lparr>tx_id = 1, tx_type = Deposit, tx_amount = 10000, tx_date = date_iso sv,
       tx_status = ''completed''\<rparr>]"

definition fetch_failed :: "wallet \<Rightarrow> wallet" where
  "fetch_failed w =
     w\<lparr>toasts := toasts w @ [ToastError ''Failed to load account data''],
       isFetching := False\<rparr>"

definition fetchUserData :: "server \<Rightarrow> wallet \<Rightarrow> wallet" where
  "fetchUserData sv w0 =
     (let w1 = w0\<lparr>isFetching := True, api_calls := api_calls w0 @ [GetPreferences]\<rparr> in
      case getPreferences sv of
        Throws \<Rightarrow> fetch_failed w1
      | userRes \<Rightarrow>
          let w2 = (case userRes of Data initial_investment \<Rightarrow> w1\<lparr>balance := js_or initial_investment 0\<rparr> | _ \<Rightarrow> w1);
              w3 = w2\<lparr>api_calls := api_calls w2 @ [GetAllPortfolios]\<rparr>
          in case getAll sv of
               Throws \<Rightarrow> fetch_failed w3
             | portfolioRes \<Rightarrow>
                 let w4 = (case portfolioRes of
                             Data (p # ps) \<Rightarrow>
                               w3\<lparr>wallet_portfolios := p # ps, selectedPortfolio := pid p\<rparr>
                           | _ \<Rightarrow> w3)
                 in w4\<lparr>transactions := mock_transactions sv, isFetching := False\<rparr>)"

text \<open>\<open>portfolios.find(p => p.id.toString() === selectedPortfolio)\<close>; \<open>pid\<close> is the rendered id.\<close>

definition find_portfolio :: "portfolio list \<Rightarrow> string \<Rightarrow> portfolio option" where
  "find_portfolio ps sel = List.find (\<lambda>p. pid p = sel) ps"

definition withdraw_failed :: "wallet \<Rightarrow> wallet" where
  "withdraw_failed w =
     w\<lparr>toasts := toasts w @ [ToastError ''Failed to process withdrawal''],
       isLoading := False\<rparr>"

text \<open>
  \<open>handleWithdraw\<close>, given the value \<open>parseFloat(amount)\<close>. Past the three guards the
  amount is a finite positive number.
\<close>

definition handleWithdraw :: "server \<Rightarrow> jsnum \<Rightarrow> wallet \<Rightarrow> wallet" where
  "handleWithdraw sv withdrawAmount w =
     (if falsy withdrawAmount \<or> le_zero withdrawAmount then
        w\<lparr>toasts := toasts w @ [ToastError ''Please enter a valid amount'']\<rparr>
      else if gt_num withdrawAmount (balance w) then
        w\<lparr>toasts := toasts w @ [ToastError ''Insufficient funds'']\<rparr>
      else if selectedPortfolio w = [] then
        w\<lparr>toasts := toasts w @ [ToastError ''Please select a portfolio'']\<rparr>
      else
        case withdrawAmount of
          Num a \<Rightarrow>
            let w1 = w\<lparr>isLoading := True\<rparr>;
                newBalance = balance w - a;
                w2 = w1\<lparr>api_calls := api_calls w1 @ [UpdatePreferences newBalance]\<rparr>
            in if updatePreferences_throws sv then withdraw_failed w2
               else
                 let found = find_portfolio (wallet_portfolios w) (selectedPortfolio w);
                     w3 = (case found of
                             None \<Rightarrow> w2
                           | Some p \<Rightarrow>
                               w2\<lparr>api_calls := api_calls w2 @
                                    [UpdatePortfolio (selectedPortfolio w)
                                       (max 0 (js_or (total_value p) 0 - a))]\<rparr>)
                 in if found \<noteq> None \<and> update_throws sv then withdraw_failed w3
                    else
                      let w4 = w3\<lparr>balance := newBalance,
                                   transactions :=
                                     \<lparr>tx_id = date_now sv, tx_type = Withdrawal, tx_amount = a,
                                      tx_date = date_iso sv, tx_status = ''completed''\<rparr>
                                     # transactions w3,
                                   toasts := toasts w3 @ [ToastWithdrew a],
                                   amount := []\<rparr>
                      in (fetchUserData sv w4)\<lparr>isLoading := False\<rparr>
        | _ \<Rightarrow> w)"

section \<open>api-research.md: the sliding-window RateLimiter\<close>

datatype py_error = ValueError string | IndexError | Raised string

record RateLimiter =
  max_calls :: int
  window :: real
  calls :: "real list"

text \<open>\<open>RateLimiter(max_calls, window)\<close>: the deque starts empty.\<close>

definition RateLimiter_init :: "int \<Rightarrow> real \<Rightarrow> RateLimiter" where
  "RateLimiter_init mc w = \<lparr>max_calls = mc, window = w, calls = []\<rparr>"

text \<open>
  \<open>can_call\<close> at clock reading \<open>now\<close>: the \<open>while\<close> loop pops the front of the deque while
  it is older than the window; then the call is recorded and allowed, or refused.
\<close>

definition can_call :: "real \<Rightarrow> RateLimiter \<Rightarrow> bool \<times> RateLimiter" where
  "can_call now rl =
     (let cs = dropWhile (\<lambda>t. t < now - window rl) (calls rl) in
      if int (length cs) < max_calls rl then (True, rl\<lparr>calls := cs @ [now]\<rparr>)
      else (False, rl\<lparr>calls := cs\<rparr>))"

text \<open>\<open>wait_time\<close> reads \<open>calls[0]\<close>, which raises on an empty deque.\<close>

definition wait_time :: "real \<Rightarrow> RateLimiter \<Rightarrow> py_error + real" where
  "wait_time now rl =
     (if int (length (calls rl)) < max_calls rl then Inr 0
      else case calls rl of
             [] \<Rightarrow> Inl IndexError
           | c # _ \<Rightarrow> Inr (c + window rl - now))"

text \<open>
  A caller that asks \<open>can_call\<close> at each of the clock readings and calls the provider
  when the answer is \<open>True\<close>: the readings at which the provider receives a call.
\<close>

fun provider_calls :: "real list \<Rightarrow> RateLimiter \<Rightarrow> real list" where
  "provider_calls [] rl = []"
| "provider_calls (now # ts) rl =
     (case can_call now rl of
        (True, rl') \<Rightarrow> now # provider_calls ts rl'
      | (False, rl') \<Rightarrow> provider_calls ts rl')"

section \<open>implementation-plan.md: MarketDataService.get_quote\<close>

record quote =
  quote_symbol :: string
  price :: real
  change :: real
  change_percent :: real
  high :: real
  low :: real
  open_price :: real
  previous_close :: real
  timestamp :: nat

text \<open>The Finnhub payload, with its keys \<open>c d dp h l o pc t\<close>.\<close>

record finnhub_data =
  fh_c :: real
  fh_d :: real
  fh_dp :: real
  fh_h :: real
  fh_l :: real
  fh_o :: real
  fh_pc :: real
  fh_t :: nat

definition Quote :: "string \<Rightarrow> finnhub_data \<Rightarrow> quote" where
  "Quote smb data =
     \<lparr>quote_symbol = smb, price = fh_c data, change = fh_d data, change_percent = fh_dp data,
      high = fh_h data, low = fh_l data, open_price = fh_o data, previous_close = fh_pc data,
      timestamp = fh_t data\<rparr>"

text \<open>
  The class \<open>RedisCache\<close> is used by the service but not defined in the sources. It is
  taken as a keyed store whose entries carry the instant at which their TTL runs out; the
  serialisation \<open>quote.json()\<close> / \<open>Quote.parse_raw\<close> is taken as the identity.
\<close>

type_synonym redis = "string \<rightharpoonup> (quote \<times> nat)"

definition cache_get :: "redis \<Rightarrow> nat \<Rightarrow> string \<Rightarrow> quote option" where
  "cache_get c now k =
     (case c k of None \<Rightarrow> None | Some (v, expires) \<Rightarrow> if now < expires then Some v else None)"

definition cache_set :: "redis \<Rightarrow> nat \<Rightarrow> string \<Rightarrow> quote \<Rightarrow> nat \<Rightarrow> redis" where
  "cache_set c now k v ttl = c(k \<mapsto> (v, now + ttl))"

definition cache_key :: "string \<Rightarrow> string" where
  "cache_key smb = ''quote:'' @ smb"

record market =
  cache :: redis
  clock :: nat
  finnhub_calls :: "string list"

text \<open>
  A call of the coroutine \<open>get_quote\<close> gives up control at its three \<open>await\<close>s only.
  Its actions are the cache read, the provider call and the cache write, each taking
  effect while the call is suspended, and the \<open>return\<close> that follows when the call is
  resumed after the read (on a hit) or after the write. The position of a call is the
  action it performs next, or its outcome.
\<close>

datatype position =
  CacheGet
  | Hit quote
  | Fetch
  | CacheSet quote
  | Written quote
  | Returned quote
  | Failed py_error

type_synonym call = "string \<times> position"

fun step :: "(string \<Rightarrow> py_error + finnhub_data) \<Rightarrow> call \<Rightarrow> market \<Rightarrow> call \<times> market" where
  "step finnhub (smb, CacheGet) m =
     (case cache_get (cache m) (clock m) (cache_key smb) of
        Some cached \<Rightarrow> ((smb, Hit cached), m)
      | None \<Rightarrow> ((smb, Fetch), m))"
| "step finnhub (smb, Hit cached) m = ((smb, Returned cached), m)"
| "step finnhub (smb, Fetch) m =
     (let m' = m\<lparr>finnhub_calls := finnhub_calls m @ [smb]\<rparr> in
      case finnhub smb of
        Inl e \<Rightarrow> ((smb, Failed e), m')
      | Inr data \<Rightarrow> ((smb, CacheSet (Quote smb data)), m'))"
| "step finnhub (smb, CacheSet q) m =
     ((smb, Written q), m\<lparr>cache := cache_set (cache m) (clock m) (cache_key smb) q 60\<rparr>)"
| "step finnhub (smb, Written q) m = ((smb, Returned q), m)"
| "step finnhub (smb, Returned q) m = ((smb, Returned q), m)"
| "step finnhub (smb, Failed e) m = ((smb, Failed e), m)"

text \<open>
  A schedule of the event loop: \<open>Run i\<close> resumes the \<open>i\<close>-th call for one action,
  \<open>Tick d\<close> lets \<open>d\<close> seconds pass.
\<close>

datatype event = Run nat | Tick nat

fun run :: "(string \<Rightarrow> py_error + finnhub_data) \<Rightarrow> event list \<Rightarrow> call list \<times> market
              \<Rightarrow> call list \<times> market" where
  "run finnhub [] st = st"
| "run finnhub (Run i # es) (cs, m) =
     (if i < length cs then
        (case step finnhub (cs ! i) m of (c', m') \<Rightarrow> run finnhub es (cs[i := c'], m'))
      else run finnhub es (cs, m))"
| "run finnhub (Tick d # es) (cs, m) = run finnhub es (cs, m\<lparr>clock := clock m + d\<rparr>)"

text \<open>
  In a schedule of two calls, the first action of one call comes after the third action
  of the other: on a miss the third action is the cache write, so the later call reads
  what the earlier one has written.
\<close>

definition reads_after_write :: "event list \<Rightarrow> bool" where
  "reads_after_write es =
     (3 \<le> count_list (takeWhile (\<lambda>e. e \<noteq> Run 1) es) (Run 0) \<or>
      3 \<le> count_list (takeWhile (\<lambda>e. e \<noteq> Run 0) es) (Run 1))"

section \<open>implementation-plan.md: PortfolioOptimizer\<close>

text \<open>
  \<open>'m\<close> is the model object, \<open>'h\<close> the data handler; a field that is Python's \<open>None\<close> is
  \<open>None\<close>.
\<close>

record ('m, 'h) PortfolioOptimizer =
  model :: "'m option"
  handler :: "'h option"


text \<open>
  \<open>train_model\<close> builds and assigns the handler, builds and assigns the fresh model, then
  fits the model in place. Each of the three library calls may raise, and the assignments
  made before it stay. The outcome is the object as it is left, with the exception if
  one was raised.
\<close>

definition train_model ::
  "py_error + 'h \<Rightarrow> ('h \<Rightarrow> py_error + 'm) \<Rightarrow> ('m \<Rightarrow> 'h \<Rightarrow> py_error + 'm)
     \<Rightarrow> ('m, 'h) PortfolioOptimizer \<Rightarrow> ('m, 'h) PortfolioOptimizer \<times> py_error option" where
  "train_model alpha158 alstm fit self =
     (case alpha158 of
        Inl e \<Rightarrow> (self, Some e)
      | Inr h \<Rightarrow>
          let self1 = self\<lparr>handler := Some h\<rparr> in
          case alstm h of
            Inl e \<Rightarrow> (self1, Some e)
          | Inr fresh \<Rightarrow>
              let self2 = self1\<lparr>model := Some fresh\<rparr> in
              case fit fresh h of
                Inl e \<Rightarrow> (self2, Some e)
              | Inr fitted \<Rightarrow> (self2\<lparr>model := Some fitted\<rparr>, None))"

text \<open>
  \<open>predict_returns\<close>: the guard \<open>not self.model\<close> is Python's truth test, false for
  \<open>None\<close> and for an object whose \<open>__bool__\<close> or \<open>__len__\<close> says so (\<open>truthy\<close>).
\<close>

definition predict_returns ::
  "('m \<Rightarrow> bool) \<Rightarrow> ('m \<Rightarrow> string list \<Rightarrow> py_error + 'r) \<Rightarrow> string list
     \<Rightarrow> ('m, 'h) PortfolioOptimizer \<Rightarrow> py_error + 'r" where
  "predict_returns truthy predict symbols self =
     (case model self of
        None \<Rightarrow> Inl (ValueError ''Model not trained'')
      | Some m \<Rightarrow>
          if truthy m then predict m symbols else Inl (ValueError ''Model not trained''))"

section \<open>The allocation optimizer\<close>

text \<open>
  Modelled from the spec: the allocation optimizer (\<open>PortfolioEngine.optimize\<close>, which the
  pipeline calls) is not part of the sources; only its interface and its caller are. The
  definitions of this section follow sections 3, 4.4 and 7 of the specification. The
  constrained optimization itself, whose algorithm the specification leaves open, is the
  parameter \<open>solve\<close>, which returns a weight vector or \<open>None\<close> when it is infeasible; the
  risk metrics of an Allocation are left out.
\<close>

datatype risk_tier = Conservative | Moderate | Aggressive

datatype optimizer_status = Optimal | Relaxed | Fallback

datatype signal_error = ModelUnavailable

datatype optimizer_error = OptimizationInfeasible

record PredictionSignal =
  signal_symbol :: string
  signal_model :: string
  signal_predicted_return :: real
  signal_confidence :: real
  horizon :: nat

record AllocationConstraint =
  weight_bounds :: "string \<Rightarrow> real \<times> real"
  sector_caps :: "(string \<times> real) list"
  cash_reserve_fraction :: real
  tier :: risk_tier

record Allocation =
  weights :: "(string \<times> real) list"
  status :: optimizer_status

text \<open>
  Modelled from the spec: the sum invariant, invested weights summing to
  \<open>1 - cash_reserve_fraction\<close> within 1e-6.
\<close>

definition sum_invariant :: "AllocationConstraint \<Rightarrow> (string \<times> real) list \<Rightarrow> bool" where
  "sum_invariant cs ws =
     (\<bar>sum_list (map snd ws) - (1 - cash_reserve_fraction cs)\<bar> \<le> 1 / 1000000)"

text \<open>Modelled from the spec: step 1 of the ladder widens every sector cap by a fixed margin.\<close>

definition relax_sector_caps :: "real \<Rightarrow> AllocationConstraint \<Rightarrow> AllocationConstraint" where
  "relax_sector_caps margin cs =
     cs\<lparr>sector_caps := map (\<lambda>(sector, cap). (sector, cap * (1 + margin))) (sector_caps cs)\<rparr>"

text \<open>
  Modelled from the spec: step 2 of the ladder, equal weights over the eligible symbols,
  respecting the cash reserve.
\<close>

definition equal_weight :: "AllocationConstraint \<Rightarrow> string list \<Rightarrow> (string \<times> real) list" where
  "equal_weight cs symbols =
     map (\<lambda>s. (s, (1 - cash_reserve_fraction cs) / real (length symbols))) symbols"

text \<open>
  Modelled from the spec: step 3 of the ladder, an Allocation is emitted only once its
  weights satisfy the sum invariant.
\<close>

definition emit :: "optimizer_status \<Rightarrow> AllocationConstraint \<Rightarrow> (string \<times> real) list
    \<Rightarrow> Allocation option" where
  "emit st cs ws = (if sum_invariant cs ws then Some \<lparr>weights = ws, status = st\<rparr> else None)"

text \<open>
  Modelled from the spec: the equal-weight fallback; \<open>OptimizationInfeasible\<close> is surfaced
  only if even this fails basic constraint sanity.
\<close>

definition fallback :: "AllocationConstraint \<Rightarrow> string list \<Rightarrow> optimizer_error + Allocation" where
  "fallback cs symbols =
     (if 0 \<le> cash_reserve_fraction cs \<and> cash_reserve_fraction cs \<le> 1 then
        (case emit Fallback cs (equal_weight cs symbols) of
           Some a \<Rightarrow> Inr a
         | None \<Rightarrow> Inl OptimizationInfeasible)
      else Inl OptimizationInfeasible)"

text \<open>
  Modelled from the spec: \<open>optimize(symbols, signals, constraints)\<close> with its fallback
  ladder, entered when the constrained optimization is infeasible or the signals of the
  model are unavailable.
\<close>

definition optimize ::
  "(AllocationConstraint \<Rightarrow> PredictionSignal list \<Rightarrow> string list \<Rightarrow> (string \<times> real) list option)
     \<Rightarrow> real \<Rightarrow> string list \<Rightarrow> signal_error + PredictionSignal list \<Rightarrow> AllocationConstraint
     \<Rightarrow> optimizer_error + Allocation" where
  "optimize solve margin symbols signals cs =
     (case signals of
        Inl ModelUnavailable \<Rightarrow> fallback cs symbols
      | Inr sigs \<Rightarrow>
          (case Option.bind (solve cs sigs symbols) (emit Optimal cs) of
             Some a \<Rightarrow> Inr a
           | None \<Rightarrow>
               (case Option.bind (solve (relax_sector_caps margin cs) sigs symbols)
                       (emit Relaxed cs) of
                  Some a \<Rightarrow> Inr a
                | None \<Rightarrow> fallback cs symbols)))"

section \<open>Analysis page: fetchMarketData\<close>

record stock =
  stock_symbol :: string
  stock_price :: real
  stock_change_percent :: real

datatype ai_signal = strong_buy | buy | hold | sell

record popular_asset =
  asset_symbol :: string
  asset_name :: string
  asset_price :: real
  asset_change :: real
  aiSignal :: ai_signal
  asset_confidence :: int

definition names :: "(string \<times> string) list" where
  "names =
     [(''AAPL'', ''Apple Inc.''), (''MSFT'', ''Microsoft Corp.''), (''GOOGL'', ''Alphabet Inc.''),
      (''AMZN'', ''Amazon.com Inc.''), (''TSLA'', ''Tesla Inc.''),
      (''META'', ''Meta Platforms Inc.''), (''NVDA'', ''NVIDIA Corp.''),
      (''NFLX'', ''Netflix Inc.''), (''AMD'', ''Advanced Micro Devices''),
      (''INTC'', ''Intel Corp.''), (''CRM'', ''Salesforce Inc.''), (''ADBE'', ''Adobe Inc.''),
      (''PYPL'', ''PayPal Holdings''), (''UBER'', ''Uber Technologies''),
      (''COIN'', ''Coinbase Global'')]"

definition getCompanyName :: "string \<Rightarrow> string" where
  "getCompanyName s = (case map_of names s of None \<Rightarrow> s | Some n \<Rightarrow> if n = [] then s else n)"

definition signal_of_change :: "real \<Rightarrow> ai_signal" where
  "signal_of_change cp =
     (if cp > 2 then strong_buy else if cp > 0 then buy else if cp > - 2 then hold else sell)"

text \<open>\<open>Math.floor(Math.random() * 20) + 75\<close>, for the draw \<open>r\<close> that \<open>Math.random()\<close> returned.\<close>

definition simulated_confidence :: "real \<Rightarrow> int" where
  "simulated_confidence r = \<lfloor>r * 20\<rfloor> + 75"

definition to_asset :: "stock \<Rightarrow> real \<Rightarrow> popular_asset" where
  "to_asset s r =
     \<lparr>asset_symbol = stock_symbol s, asset_name = getCompanyName (stock_symbol s),
      asset_price = stock_price s, asset_change = stock_change_percent s,
      aiSignal = signal_of_change (stock_change_percent s),
      asset_confidence = simulated_confidence r\<rparr>"

text \<open>
  The list handed to \<open>setPopularAssets\<close>; \<open>random i\<close> is the value of the \<open>i\<close>-th call of
  \<open>Math.random()\<close>, one call per mapped stock.
\<close>

definition popularAssets :: "(nat \<Rightarrow> real) \<Rightarrow> stock list \<Rightarrow> popular_asset list" where
  "popularAssets random data =
     map (\<lambda>(i, s). to_asset s (random i)) (enumerate 0 (take 8 data))"

text \<open>
  The ranking policy in the words of the specification, for comparison: by predicted
  return descending, then by higher confidence, then by symbol in lexical order.
\<close>

fun lexical_less :: "string \<Rightarrow> string \<Rightarrow> bool" where
  "lexical_less [] [] = False"
| "lexical_less [] (y # ys) = True"
| "lexical_less (x # xs) [] = False"
| "lexical_less (x # xs) (y # ys) =
     ((of_char x :: nat) < of_char y \<or> (x = y \<and> lexical_less xs ys))"

definition ranks_before_spec :: "string \<times> real \<times> real \<Rightarrow> string \<times> real \<times> real \<Rightarrow> bool" where
  "ranks_before_spec a b =
     (case (a, b) of ((sa, ra, ca), (sb, rb, cb)) \<Rightarrow>
        ra > rb \<or> (ra = rb \<and> (ca > cb \<or> (ca = cb \<and> lexical_less sa sb))))"

definition ranked_spec :: "(string \<times> real \<times> real) list \<Rightarrow> bool" where
  "ranked_spec xs = sorted_wrt (\<lambda>a b. \<not> ranks_before_spec b a) xs"

section \<open>Concrete inputs\<close>

definition h_aapl :: holding where
  "h_aapl =
     \<lparr>symbol = ''AAPL'', weight = 0.75, quantity = 10, avg_price = 100, current_price = 110,
      confidence_score = 0.875, predicted_return = 0.125\<rparr>"

definition h_cash :: holding where
  "h_cash =
     \<lparr>symbol = ''CASH'', weight = 0.25, quantity = 1, avg_price = 1, current_price = 1,
      confidence_score = 0.9375, predicted_return = 0\<rparr>"

text \<open>
  A portfolio whose weights sum to 1, one whose weights sum to 1.25, and one with the
  weights that \<open>JSON.parse\<close> makes of 0.5 and 0.45. All other numbers are doubles as
  written.
\<close>

definition p_balanced :: portfolio where
  "p_balanced =
     \<lparr>pid = ''1'', name = ''Growth'', total_value = Some 1500, volatility = Some 0.125,
      holdings = Some [h_aapl, h_cash]\<rparr>"

definition hs_drifted :: "holding list" where
  "hs_drifted = [h_aapl, h_cash\<lparr>weight := 0.5\<rparr>]"

definition p_drifted :: portfolio where
  "p_drifted = p_balanced\<lparr>holdings := Some hs_drifted\<rparr>"

definition hs_nominal :: "holding list" where
  "hs_nominal = [h_aapl\<lparr>weight := 0.5\<rparr>, h_cash\<lparr>weight := binary64 0.45\<rparr>]"

definition p_nominal :: portfolio where
  "p_nominal = p_balanced\<lparr>holdings := Some hs_nominal\<rparr>"

definition dashboard_init :: dashboard where
  "dashboard_init = \<lparr>portfolios = [], totalValue = 0, totalReturn = 0, aiInsights = []\<rparr>"

text \<open>
  The condition of the claim about rejected withdrawals: a finite amount above zero.
\<close>

fun positive_number :: "jsnum \<Rightarrow> bool" where
  "positive_number (Num r) = (0 < r)"
| "positive_number _ = False"

definition wallet_demo :: wallet where
  "wallet_demo =
     \<lparr>amount = ''2000'', balance = 1000, wallet_portfolios = [p_balanced],
      selectedPortfolio = ''1'', isLoading = False, isFetching = False,
      transactions = [], toasts = [], api_calls = []\<rparr>"

definition server_demo :: server where
  "server_demo =
     \<lparr>updatePreferences_throws = False, update_throws = False,
      getPreferences = Data (Some 900), getAll = Data [p_balanced],
      date_now = 1700000000000, date_iso = ''2026-01-01T00:00:00.000Z''\<rparr>"

text \<open>
  A history of provider calls, latest first, keeps the budget when each call, counted with
  the calls before it that are no older than the window, stays within \<open>max_calls\<close>.
\<close>

fun budget_kept :: "int \<Rightarrow> real \<Rightarrow> real list \<Rightarrow> bool" where
  "budget_kept mc w [] = True"
| "budget_kept mc w (s # older) =
     (int (length (filter (\<lambda>x. s - w \<le> x) (s # older))) \<le> mc \<and> budget_kept mc w older)"

definition finnhub_demo :: "string \<Rightarrow> py_error + finnhub_data" where
  "finnhub_demo s =
     Inr \<lparr>fh_c = 110, fh_d = 1, fh_dp = 0.9, fh_h = 111, fh_l = 108, fh_o = 109, fh_pc = 109,
          fh_t = 1700000000\<rparr>"

definition market_init :: market where
  "market_init = \<lparr>cache = Map.empty, clock = 0, finnhub_calls = []\<rparr>"




definition constraint_demo :: AllocationConstraint where
  "constraint_demo =
     \<lparr>weight_bounds = (\<lambda>s. (0, 0.4)), sector_caps = [(''Tech'', 0.6)],
      cash_reserve_fraction = 0.05, tier = Moderate\<rparr>"

text \<open>A solver that returns weights summing to one half, whatever the constraints.\<close>

definition solve_unnormalized ::
  "AllocationConstraint \<Rightarrow> PredictionSignal list \<Rightarrow> string list \<Rightarrow> (string \<times> real) list option" where
  "solve_unnormalized cs sigs symbols = Some [(''A'', 0.25), (''B'', 0.25)]"

definition stocks_demo :: "stock list" where
  "stocks_demo =
     [\<lparr>stock_symbol = ''MSFT'', stock_price = 300, stock_change_percent = 1\<rparr>,
      \<lparr>stock_symbol = ''AAPL'', stock_price = 200, stock_change_percent = 3\<rparr>]"

text \<open>A listed asset as the triple (symbol, change, confidence) that a ranking would read.\<close>

definition as_signal :: "popular_asset \<Rightarrow> string \<times> real \<times> real" where
  "as_signal a = (asset_symbol a, asset_change a, real_of_int (asset_confidence a))"

section \<open>Evaluating the rounding\<close>

lemma halve_numeral:
  "halve (numeral k) m u =
     (if m \<ge> 2 ^ 53 then halve (pred_numeral k) (m / 2) (u * 2) else (m, u))"
  by (simp add: numeral_eq_Suc)

lemma double_numeral:
  "double (numeral k) m u =
     (if m < 2 ^ 52 then double (pred_numeral k) (m * 2) (u / 2) else (m, u))"
  by (simp add: numeral_eq_Suc)

lemmas binary64_eval = binary64_def round_even_def Let_def halve_numeral double_numeral

text \<open>The doubles that the dashboard's decimal literals denote.\<close>

lemma binary64_literals:
  "binary64 0.05 = 3602879701896397 / 72057594037927936"
  "binary64 0.1 = 3602879701896397 / 36028797018963968"
  "binary64 0.2 = 3602879701896397 / 18014398509481984"
  "binary64 0.8 = 3602879701896397 / 4503599627370496"
  "binary64 0.45 = 8106479329266893 / 18014398509481984"
  by (simp_all add: binary64_eval)

text \<open>Doubles that are their own rounding.\<close>

lemma binary64_exact:
  "binary64 0 = 0"
  "binary64 0.125 = 0.125"
  "binary64 0.25 = 0.25"
  "binary64 0.5 = 0.5"
  "binary64 0.75 = 0.75"
  "binary64 1 = 1"
  "binary64 1.25 = 1.25"
  "binary64 12.5 = 12.5"
  "binary64 25 = 25"
  "binary64 87.5 = 87.5"
  "binary64 95 = 95"
  by (simp_all add: binary64_eval)

section \<open>Bounds on the insight lists\<close>

lemma length_generateAiInsights: "length (generateAiInsights ps) \<le> 3"
  by (simp add: generateAiInsights_def Let_def welcome_insight_def del: take_append)

text \<open>
  C10. The portfolio page's \<open>generateAiInsights\<close> returns at most 5 insights, each made
  from a holding that is not CASH and whose confidence score is above 0.7, and the
  dashboard's \<open>generateAiInsights\<close> sets at most 3 insights.
\<close>

theorem insights_bounded:
  "length (generateAiInsights_page hs) \<le> 5 \<and>
   (\<forall>ins \<in> set (generateAiInsights_page hs).
      \<exists>h \<in> set hs. ins = holding_insight h \<and> symbol h \<noteq> ''CASH'' \<and> confidence_score h > 0.7) \<and>
   length (generateAiInsights ps) \<le> 3"
proof (intro conjI ballI)
  show "length (generateAiInsights_page hs) \<le> 5"
    by (simp add: generateAiInsights_page_def)
next
  fix ins
  assume "ins \<in> set (generateAiInsights_page hs)"
  then have "ins \<in> holding_insight ` {h \<in> set hs. symbol h \<noteq> ''CASH'' \<and> confidence_score h > 0.7}"
    by (auto simp: generateAiInsights_page_def split: if_splits dest!: in_set_takeD)
  then show "\<exists>h \<in> set hs. ins = holding_insight h \<and> symbol h \<noteq> ''CASH'' \<and> confidence_score h > 0.7"
    by blast
next
  show "length (generateAiInsights ps) \<le> 3"
    by (rule length_generateAiInsights)
qed

text \<open>
  Both bounds are reached: six eligible holdings and a cash position give five insights,
  each made from an eligible holding, and four drifted portfolios give three.
\<close>

theorem insights_bounded_witness:
  "length (generateAiInsights_page (replicate 6 h_aapl @ [h_cash])) = 5 \<and>
   (\<exists>h \<in> set (replicate 6 h_aapl @ [h_cash]).
      holding_insight h_aapl = holding_insight h \<and> symbol h \<noteq> ''CASH'' \<and>
      confidence_score h > 0.7) \<and>
   length (generateAiInsights (replicate 4 p_drifted)) = 3"
proof -
  have six: "replicate 6 h_aapl = [h_aapl, h_aapl, h_aapl, h_aapl, h_aapl, h_aapl]"
    by (simp add: numeral_eq_Suc)
  have page: "generateAiInsights_page (replicate 6 h_aapl @ [h_cash]) =
      [holding_insight h_aapl, holding_insight h_aapl, holding_insight h_aapl,
       holding_insight h_aapl, holding_insight h_aapl]"
    unfolding six by (simp add: generateAiInsights_page_def h_aapl_def h_cash_def)
  have a: "length (generateAiInsights_page (replicate 6 h_aapl @ [h_cash])) = 5"
    unfolding page by simp
  have mem: "holding_insight h_aapl \<in> set (generateAiInsights_page (replicate 6 h_aapl @ [h_cash]))"
    unfolding page by simp
  have four: "replicate 4 p_drifted = [p_drifted, p_drifted, p_drifted, p_drifted]"
    by (simp add: numeral_eq_Suc)
  have b: "length (generateAiInsights (replicate 4 p_drifted)) = 3"
    unfolding four
    by (simp add: generateAiInsights_def Let_def portfolio_insights_def p_drifted_def
        hs_drifted_def p_balanced_def h_aapl_def h_cash_def drift_def totalWeight_def
        signal_insights_def binary64_eval)
  note src = insights_bounded [of "replicate 6 h_aapl @ [h_cash]" "replicate 4 p_drifted",
      THEN conjunct2, THEN conjunct1, rule_format, OF mem]
  from a src b show ?thesis by (intro conjI)
qed

section \<open>Drift and the rebalancing recommendation\<close>

lemma itype_signal_insights: "filter (\<lambda>i. itype i = Action) (signal_insights hs) = []"
  by (simp add: signal_insights_def signal_insight_def filter_empty_conv)

lemma action_portfolio_insights:
  "filter (\<lambda>i. itype i = Action) (portfolio_insights p) =
     (case holdings p of
        None \<Rightarrow> []
      | Some hs \<Rightarrow>
          if hs \<noteq> [] \<and> drift hs > binary64 0.05 then [rebalance_insight p (drift hs)] else [])"
  by (simp add: portfolio_insights_def itype_signal_insights rebalance_insight_def
      split: option.split)

lemma action_length_le_1: "length (filter (\<lambda>i. itype i = Action) (portfolio_insights p)) \<le> 1"
  by (simp add: action_portfolio_insights split: option.split)

lemma generateAiInsights_subset:
  "ins \<in> set (generateAiInsights ps) \<Longrightarrow> itype ins = Action \<Longrightarrow>
   \<exists>p \<in> set ps. ins \<in> set (filter (\<lambda>i. itype i = Action) (portfolio_insights p))"
  by (auto simp: generateAiInsights_def Let_def welcome_insight_def volatility_insight_def
      split: if_splits dest!: in_set_takeD)

text \<open>
  C2, as the code has it. The drift of a portfolio with at least one holding is the
  absolute difference between the sum of its holdings' weights and 1, the sum and the
  difference in binary64 as the page computes them; target weights do not enter. The
  rebalancing recommendation of a portfolio is produced exactly when that computed drift
  is above the double 0.05, and every recommendation in the list that
  \<open>generateAiInsights\<close> sets comes from a portfolio whose computed drift is above it.
\<close>

theorem drift_gate:
  "drift hs = \<bar>binary64 (foldl (\<lambda>sum h. binary64 (sum + weight h)) 0 hs - 1)\<bar> \<and>
   filter (\<lambda>i. itype i = Action) (portfolio_insights p) =
     (case holdings p of
        None \<Rightarrow> []
      | Some hs \<Rightarrow>
          if hs \<noteq> [] \<and> drift hs > binary64 0.05 then [rebalance_insight p (drift hs)] else []) \<and>
   (\<forall>ins \<in> set (generateAiInsights ps). itype ins = Action \<longrightarrow>
      (\<exists>q \<in> set ps. \<exists>hs. holdings q = Some hs \<and> hs \<noteq> [] \<and> drift hs > binary64 0.05 \<and>
         ins = rebalance_insight q (drift hs)))"
proof (intro conjI ballI impI)
  show "drift hs = \<bar>binary64 (foldl (\<lambda>sum h. binary64 (sum + weight h)) 0 hs - 1)\<bar>"
    by (simp add: drift_def totalWeight_def)
next
  show "filter (\<lambda>i. itype i = Action) (portfolio_insights p) =
     (case holdings p of
        None \<Rightarrow> []
      | Some hs \<Rightarrow>
          if hs \<noteq> [] \<and> drift hs > binary64 0.05 then [rebalance_insight p (drift hs)] else [])"
    by (rule action_portfolio_insights)
next
  fix ins
  assume "ins \<in> set (generateAiInsights ps)" and "itype ins = Action"
  then obtain q where q: "q \<in> set ps"
    and ins: "ins \<in> set (filter (\<lambda>i. itype i = Action) (portfolio_insights q))"
    using generateAiInsights_subset by blast
  from ins show "\<exists>q \<in> set ps. \<exists>hs. holdings q = Some hs \<and> hs \<noteq> [] \<and>
         drift hs > binary64 0.05 \<and> ins = rebalance_insight q (drift hs)"
    unfolding action_portfolio_insights using q
    by (cases "holdings q") (auto split: if_splits)
qed

lemma drifted_drift:
  "drift hs_drifted = 1 / 4"
  "binary64 0.05 < 1 / 4"
  by (simp_all add: drift_def totalWeight_def hs_drifted_def h_aapl_def h_cash_def binary64_eval)

lemma drifted_insights:
  "generateAiInsights [p_drifted] = [rebalance_insight p_drifted (1 / 4), signal_insight h_aapl]"
  by (simp add: generateAiInsights_def Let_def portfolio_insights_def p_drifted_def
      hs_drifted_def p_balanced_def h_aapl_def h_cash_def drift_def totalWeight_def
      signal_insights_def avgVolatility_def js_or_def binary64_eval)

text \<open>
  At weights 0.5 and 0.45 the rounded sum is the double below 0.95 and the computed drift
  is 0.050000000000000044, above the double 0.05.
\<close>

lemma nominal_drift:
  "drift hs_nominal = 225179981368525 / 4503599627370496"
  "binary64 0.05 < 225179981368525 / 4503599627370496"
  by (simp_all add: drift_def totalWeight_def hs_nominal_def h_aapl_def h_cash_def binary64_eval)

text \<open>
  The portfolio with weights 0.75 and 0.5 has drift 0.25, the one with weights 0.5 and
  0.45 has drift 0.050000000000000044, and each gets its recommendation.
\<close>

theorem drift_gate_witness:
  "drift hs_drifted = 1 / 4 \<and>
   filter (\<lambda>i. itype i = Action) (portfolio_insights p_drifted) =
     [rebalance_insight p_drifted (1 / 4)] \<and>
   drift hs_nominal = 225179981368525 / 4503599627370496 \<and>
   filter (\<lambda>i. itype i = Action) (portfolio_insights p_nominal) =
     [rebalance_insight p_nominal (225179981368525 / 4503599627370496)] \<and>
   (\<exists>q \<in> set [p_drifted]. \<exists>hs. holdings q = Some hs \<and> hs \<noteq> [] \<and> drift hs > binary64 0.05 \<and>
      rebalance_insight p_drifted (1 / 4) = rebalance_insight q (drift hs))"
proof -
  note t = drift_gate [of hs_drifted p_drifted "[p_drifted]"]
  have ne: "hs_drifted \<noteq> []" "hs_nominal \<noteq> []"
    by (simp_all add: hs_drifted_def hs_nominal_def)
  have a: "drift hs_drifted = 1 / 4"
    using t [THEN conjunct1]
    by (simp add: hs_drifted_def h_aapl_def h_cash_def binary64_eval)
  have b: "filter (\<lambda>i. itype i = Action) (portfolio_insights p_drifted) =
     [rebalance_insight p_drifted (1 / 4)]"
    using t [THEN conjunct2, THEN conjunct1] drifted_drift(2) ne(1)
    by (simp add: p_drifted_def drifted_drift(1))
  have c: "filter (\<lambda>i. itype i = Action) (portfolio_insights p_nominal) =
     [rebalance_insight p_nominal (225179981368525 / 4503599627370496)]"
    using drift_gate [of hs_nominal p_nominal "[]", THEN conjunct2, THEN conjunct1]
      nominal_drift(2) ne(2)
    by (simp add: p_nominal_def nominal_drift(1))
  have mem: "rebalance_insight p_drifted (1 / 4) \<in> set (generateAiInsights [p_drifted])"
    by (simp add: drifted_insights)
  have ty: "itype (rebalance_insight p_drifted (1 / 4)) = Action"
    by (simp add: rebalance_insight_def)
  note d = t [THEN conjunct2, THEN conjunct2, rule_format, OF mem ty]
  from a b nominal_drift(1) c d show ?thesis by (intro conjI)
qed

text \<open>
  C2 as stated fails: with current weights 0.75 and 0.25 against targets 0.5 and 0.5 the
  sum of the absolute per-asset differences is 0.5, above the threshold, while the drift
  the dashboard computes is 0 and no recommendation is produced.
\<close>

theorem drift_is_not_sum_of_differences:
  "aggregate_drift_spec (zip (map weight [h_aapl, h_cash]) [0.5, 0.5]) = 0.5 \<and>
   drift [h_aapl, h_cash] = 0 \<and>
   holdings p_balanced = Some [h_aapl, h_cash] \<and>
   filter (\<lambda>i. itype i = Action) (generateAiInsights [p_balanced]) = []"
  by (simp add: aggregate_drift_spec_def generateAiInsights_def Let_def portfolio_insights_def
      p_balanced_def h_aapl_def h_cash_def drift_def totalWeight_def signal_insights_def
      avgVolatility_def js_or_def signal_insight_def binary64_eval)

section \<open>Repeated evaluations\<close>

lemma refreshes_emitted:
  "snd (refreshes rs d) = map generateAiInsights (List.map_filter (\<lambda>r. r) rs)"
proof (induction rs arbitrary: d)
  case Nil
  show ?case by simp
next
  case (Cons r rs)
  show ?case
    by (cases r) (simp_all add: Let_def split_beta Cons.IH fetchPortfolioData_def)
qed

lemma length_filter_concat_le:
  "(\<And>x. length (filter P (f x)) \<le> 1) \<Longrightarrow> length (filter P (concat (map f xs))) \<le> length xs"
proof (induction xs)
  case Nil
  show ?case by simp
next
  case (Cons x xs)
  have "length (filter P (f x)) \<le> 1" by (rule Cons.prems)
  moreover have "length (filter P (concat (map f xs))) \<le> length xs"
    by (rule Cons.IH) (rule Cons.prems)
  ultimately show ?case by simp
qed

lemma length_filter_take_le: "length (filter P (take n xs)) \<le> length (filter P xs)"
proof -
  have "filter P xs = filter P (take n xs) @ filter P (drop n xs)"
    by (metis append_take_drop_id filter_append)
  then show ?thesis by simp
qed

lemma actions_le_portfolios:
  "length (filter (\<lambda>i. itype i = Action) (generateAiInsights ps)) \<le> length ps"
proof (cases "ps = []")
  case True
  then show ?thesis by (simp add: generateAiInsights_def welcome_insight_def)
next
  case False
  let ?xs = "concat (map portfolio_insights ps) @
                (if avgVolatility ps > binary64 0.2 then [volatility_insight] else [])"
  have "length (filter (\<lambda>i. itype i = Action) (take 3 ?xs))
          \<le> length (filter (\<lambda>i. itype i = Action) ?xs)"
    by (rule length_filter_take_le)
  also have "\<dots> = length (filter (\<lambda>i. itype i = Action) (concat (map portfolio_insights ps)))"
    by (simp add: volatility_insight_def)
  also have "\<dots> \<le> length ps"
    by (rule length_filter_concat_le) (rule action_length_le_1)
  finally show ?thesis using False by (simp add: generateAiInsights_def Let_def)
qed

lemma refreshes_repeated:
  "snd (refreshes (replicate n (Some ps)) d) = replicate n (generateAiInsights ps)"
  by (simp add: refreshes_emitted List.map_filter_def filter_replicate map_replicate)

text \<open>
  C3, as the code has it. Every refresh that receives data sets the insight list computed
  from the portfolios of that refresh alone, in place of the previous list, so refreshes
  that receive the same portfolios set the same list, however often they repeat. One
  evaluation produces at most one rebalancing recommendation per portfolio. Nothing is
  remembered between evaluations.
\<close>

theorem evaluations_stateless:
  "snd (refreshes rs d) = map generateAiInsights (List.map_filter (\<lambda>r. r) rs) \<and>
   aiInsights (fetchPortfolioData (Some ps) d) = generateAiInsights ps \<and>
   snd (refreshes (replicate n (Some ps)) d) = replicate n (generateAiInsights ps) \<and>
   length (filter (\<lambda>i. itype i = Action) (portfolio_insights p)) \<le> 1 \<and>
   length (filter (\<lambda>i. itype i = Action) (generateAiInsights ps)) \<le> length ps"
proof (intro conjI)
  show "snd (refreshes rs d) = map generateAiInsights (List.map_filter (\<lambda>r. r) rs)"
    by (rule refreshes_emitted)
  show "aiInsights (fetchPortfolioData (Some ps) d) = generateAiInsights ps"
    by (simp add: fetchPortfolioData_def)
  show "snd (refreshes (replicate n (Some ps)) d) = replicate n (generateAiInsights ps)"
    by (rule refreshes_repeated)
  show "length (filter (\<lambda>i. itype i = Action) (portfolio_insights p)) \<le> 1"
    by (rule action_length_le_1)
  show "length (filter (\<lambda>i. itype i = Action) (generateAiInsights ps)) \<le> length ps"
    by (rule actions_le_portfolios)
qed

text \<open>
  C3 as stated fails: two successive refreshes that see the same drifted portfolio, with
  no acknowledgement and no return to balance in between, each emit its rebalancing
  recommendation.
\<close>

theorem recommendation_repeated:
  "map (filter (\<lambda>i. itype i = Action))
     (snd (refreshes [Some [p_drifted], Some [p_drifted]] dashboard_init)) =
     [[rebalance_insight p_drifted (1 / 4)], [rebalance_insight p_drifted (1 / 4)]]"
  unfolding refreshes_emitted
  by (simp add: drifted_insights rebalance_insight_def signal_insight_def)

section \<open>Guarded divisions\<close>




section \<open>Rejected withdrawals\<close>

lemma falsy_or_le_zero: "\<not> positive_number x \<Longrightarrow> \<not> gt_num x b \<Longrightarrow> falsy x \<or> le_zero x"
  by (cases x) auto

text \<open>
  C8. When the parsed amount is not a positive number, or exceeds the current balance, or
  no portfolio is selected, \<open>handleWithdraw\<close> sends no request (neither the preference
  update nor the portfolio update) and leaves the balance and the transaction history as
  they were: the only change to the page is one error toast.
\<close>

theorem withdraw_rejected_unchanged:
  assumes "\<not> positive_number withdrawAmount \<or> gt_num withdrawAmount (balance w)
           \<or> selectedPortfolio w = []"
  shows "api_calls (handleWithdraw sv withdrawAmount w) = api_calls w \<and>
         balance (handleWithdraw sv withdrawAmount w) = balance w \<and>
         transactions (handleWithdraw sv withdrawAmount w) = transactions w \<and>
         (\<exists>msg. handleWithdraw sv withdrawAmount w = w\<lparr>toasts := toasts w @ [ToastError msg]\<rparr>)"
proof -
  have "\<exists>msg. handleWithdraw sv withdrawAmount w = w\<lparr>toasts := toasts w @ [ToastError msg]\<rparr>"
  proof (cases "falsy withdrawAmount \<or> le_zero withdrawAmount")
    case True
    then have "handleWithdraw sv withdrawAmount w =
        w\<lparr>toasts := toasts w @ [ToastError ''Please enter a valid amount'']\<rparr>"
      by (simp add: handleWithdraw_def)
    then show ?thesis by (rule exI)
  next
    case False
    then have "gt_num withdrawAmount (balance w) \<or> selectedPortfolio w = []"
      using assms falsy_or_le_zero by blast
    with False show ?thesis by (auto simp: handleWithdraw_def)
  qed
  then obtain msg where
    eq: "handleWithdraw sv withdrawAmount w = w\<lparr>toasts := toasts w @ [ToastError msg]\<rparr>"
    by blast
  show ?thesis
  proof (intro conjI)
    show "\<exists>msg. handleWithdraw sv withdrawAmount w = w\<lparr>toasts := toasts w @ [ToastError msg]\<rparr>"
      using eq by (rule exI)
  qed (simp_all add: eq)
qed

text \<open>An accepted withdrawal, for contrast: both updates are sent and the page refreshes.\<close>

lemma withdraw_accepted_example:
  "handleWithdraw server_demo (Num 100) wallet_demo =
     wallet_demo\<lparr>amount := [], balance := 900,
       transactions := mock_transactions server_demo,
       toasts := [ToastWithdrew 100],
       api_calls := [UpdatePreferences 900, UpdatePortfolio ''1'' 1400, GetPreferences,
                     GetAllPortfolios]\<rparr>"
  by (simp add: handleWithdraw_def wallet_demo_def server_demo_def Let_def find_portfolio_def
      p_balanced_def js_or_def fetchUserData_def)

text \<open>A withdrawal of 2000 from a balance of 1000, and an amount that does not parse.\<close>

theorem withdraw_rejected_unchanged_witness:
  "gt_num (Num 2000) (balance wallet_demo) \<and>
   api_calls (handleWithdraw server_demo (Num 2000) wallet_demo) = [] \<and>
   balance (handleWithdraw server_demo (Num 2000) wallet_demo) = 1000 \<and>
   transactions (handleWithdraw server_demo (Num 2000) wallet_demo) = [] \<and>
   \<not> positive_number NaN \<and>
   api_calls (handleWithdraw server_demo NaN wallet_demo) = [] \<and>
   balance (handleWithdraw server_demo NaN wallet_demo) = 1000 \<and>
   transactions (handleWithdraw server_demo NaN wallet_demo) = []"
proof -
  have g: "gt_num (Num 2000) (balance wallet_demo)" by (simp add: wallet_demo_def)
  have n: "\<not> positive_number NaN" by simp
  have w: "api_calls wallet_demo = []" "balance wallet_demo = 1000" "transactions wallet_demo = []"
    by (simp_all add: wallet_demo_def)
  from g have h1: "\<not> positive_number (Num 2000) \<or> gt_num (Num 2000) (balance wallet_demo)
           \<or> selectedPortfolio wallet_demo = []" by blast
  from n have h2: "\<not> positive_number NaN \<or> gt_num NaN (balance wallet_demo)
           \<or> selectedPortfolio wallet_demo = []" by blast
  from withdraw_rejected_unchanged [OF h1, of server_demo]
    withdraw_rejected_unchanged [OF h2, of server_demo] g n
  show ?thesis by (simp add: w)
qed

section \<open>Concurrent quote requests\<close>

text \<open>
  C7 as stated fails: two calls of \<open>get_quote\<close> for the same symbol that both read the
  empty cache before either has written it each call the provider.
\<close>

theorem overlapping_calls_fetch_twice:
  "run finnhub_demo [Run 0, Run 1, Run 0, Run 1, Run 0, Run 1, Run 0, Run 1]
     ([(''AAPL'', CacheGet), (''AAPL'', CacheGet)], market_init) =
     ([(''AAPL'', Returned (Quote ''AAPL'' (projr (finnhub_demo ''AAPL'')))),
       (''AAPL'', Returned (Quote ''AAPL'' (projr (finnhub_demo ''AAPL''))))],
      market_init\<lparr>cache := [cache_key ''AAPL'' \<mapsto> (Quote ''AAPL'' (projr (finnhub_demo ''AAPL'')), 60)],
        finnhub_calls := [''AAPL'', ''AAPL'']\<rparr>)"
  by (simp add: market_init_def finnhub_demo_def cache_get_def cache_set_def cache_key_def)

lemma shuffles_4_4:
  "shuffles [a, a, a, a] [b, b, b, b] =
     {
      [a,a,a,a,b,b,b,b], [a,a,a,b,a,b,b,b], [a,a,a,b,b,a,b,b], [a,a,a,b,b,b,a,b], [a,a,a,b,b,b,b,a],
      [a,a,b,a,a,b,b,b], [a,a,b,a,b,a,b,b], [a,a,b,a,b,b,a,b], [a,a,b,a,b,b,b,a], [a,a,b,b,a,a,b,b],
      [a,a,b,b,a,b,a,b], [a,a,b,b,a,b,b,a], [a,a,b,b,b,a,a,b], [a,a,b,b,b,a,b,a], [a,a,b,b,b,b,a,a],
      [a,b,a,a,a,b,b,b], [a,b,a,a,b,a,b,b], [a,b,a,a,b,b,a,b], [a,b,a,a,b,b,b,a], [a,b,a,b,a,a,b,b],
      [a,b,a,b,a,b,a,b], [a,b,a,b,a,b,b,a], [a,b,a,b,b,a,a,b], [a,b,a,b,b,a,b,a], [a,b,a,b,b,b,a,a],
      [a,b,b,a,a,a,b,b], [a,b,b,a,a,b,a,b], [a,b,b,a,a,b,b,a], [a,b,b,a,b,a,a,b], [a,b,b,a,b,a,b,a],
      [a,b,b,a,b,b,a,a], [a,b,b,b,a,a,a,b], [a,b,b,b,a,a,b,a], [a,b,b,b,a,b,a,a], [a,b,b,b,b,a,a,a],
      [b,a,a,a,a,b,b,b], [b,a,a,a,b,a,b,b], [b,a,a,a,b,b,a,b], [b,a,a,a,b,b,b,a], [b,a,a,b,a,a,b,b],
      [b,a,a,b,a,b,a,b], [b,a,a,b,a,b,b,a], [b,a,a,b,b,a,a,b], [b,a,a,b,b,a,b,a], [b,a,a,b,b,b,a,a],
      [b,a,b,a,a,a,b,b], [b,a,b,a,a,b,a,b], [b,a,b,a,a,b,b,a], [b,a,b,a,b,a,a,b], [b,a,b,a,b,a,b,a],
      [b,a,b,a,b,b,a,a], [b,a,b,b,a,a,a,b], [b,a,b,b,a,a,b,a], [b,a,b,b,a,b,a,a], [b,a,b,b,b,a,a,a],
      [b,b,a,a,a,a,b,b], [b,b,a,a,a,b,a,b], [b,b,a,a,a,b,b,a], [b,b,a,a,b,a,a,b], [b,b,a,a,b,a,b,a],
      [b,b,a,a,b,b,a,a], [b,b,a,b,a,a,a,b], [b,b,a,b,a,a,b,a], [b,b,a,b,a,b,a,a], [b,b,a,b,b,a,a,a],
      [b,b,b,a,a,a,a,b], [b,b,b,a,a,a,b,a], [b,b,b,a,a,b,a,a], [b,b,b,a,b,a,a,a], [b,b,b,b,a,a,a,a]}"
  by (simp add: insert_commute)

text \<open>
  C7, as the code has it. Two calls of \<open>get_quote\<close> for the same key, started while no
  entry exists, run their actions in some interleaving. Exactly one provider call is
  issued when one call makes its cache read after the other has made its cache write; in
  every other interleaving two provider calls are issued. Nothing attaches a caller to a
  pending fetch: a call that reads less than the 60 second TTL after the write returns
  the cached quote, also when the writing call has not yet returned.
\<close>

theorem one_fetch_iff_read_after_write:
  assumes "cache_get (cache m) (clock m) (cache_key s) = None"
    and "finnhub s = Inr data"
    and "es \<in> shuffles [Run 0, Run 0, Run 0, Run 0] [Run 1, Run 1, Run 1, Run 1]"
    and "d < 60"
  shows "finnhub_calls (snd (run finnhub es ([(s, CacheGet), (s, CacheGet)], m))) =
           finnhub_calls m @ (if reads_after_write es then [s] else [s, s]) \<and>
         run finnhub [Run 0, Run 0, Run 0, Tick d, Run 1, Run 1, Run 0]
             ([(s, CacheGet), (s, CacheGet)], m) =
           ([(s, Returned (Quote s data)), (s, Returned (Quote s data))],
            m\<lparr>cache := cache_set (cache m) (clock m) (cache_key s) (Quote s data) 60,
              finnhub_calls := finnhub_calls m @ [s], clock := clock m + d\<rparr>)"
proof (rule conjI)
  have get: "step finnhub (s, CacheGet) m' = ((s, Fetch), m')"
    if "cache m' = cache m" "clock m' = clock m" for m'
    using assms(1) that by (simp add: cache_get_def)
  have hit: "step finnhub (s, CacheGet) m' = ((s, Hit q), m')"
    if "cache m' = cache_set (cache m) (clock m) (cache_key s) q 60" "clock m' = clock m"
    for m' q
    using that by (simp add: cache_get_def cache_set_def)
  have fetch: "step finnhub (s, Fetch) m' =
      ((s, CacheSet (Quote s data)), m'\<lparr>finnhub_calls := finnhub_calls m' @ [s]\<rparr>)" for m'
    using assms(2) by simp
  from assms(3)
  show "finnhub_calls (snd (run finnhub es ([(s, CacheGet), (s, CacheGet)], m))) =
           finnhub_calls m @ (if reads_after_write es then [s] else [s, s])"
    unfolding shuffles_4_4
    by (elim insertE emptyE)
      (simp_all add: get hit fetch reads_after_write_def del: step.simps(1,3))
next
  show "run finnhub [Run 0, Run 0, Run 0, Tick d, Run 1, Run 1, Run 0]
             ([(s, CacheGet), (s, CacheGet)], m) =
           ([(s, Returned (Quote s data)), (s, Returned (Quote s data))],
            m\<lparr>cache := cache_set (cache m) (clock m) (cache_key s) (Quote s data) 60,
              finnhub_calls := finnhub_calls m @ [s], clock := clock m + d\<rparr>)"
    using assms(1,2,4) by (simp add: cache_get_def cache_set_def)
qed

text \<open>
  From the empty cache: the alternating schedule, the schedule in which the second call
  starts after the first has written, and that schedule with thirty seconds between the
  write and the read.
\<close>

theorem one_fetch_iff_read_after_write_witness:
  "cache_get (cache market_init) (clock market_init) (cache_key ''AAPL'') = None \<and>
   finnhub_calls (snd (run finnhub_demo [Run 0, Run 1, Run 0, Run 1, Run 0, Run 1, Run 0, Run 1]
     ([(''AAPL'', CacheGet), (''AAPL'', CacheGet)], market_init))) = [''AAPL'', ''AAPL''] \<and>
   finnhub_calls (snd (run finnhub_demo [Run 0, Run 0, Run 0, Run 1, Run 1, Run 0, Run 1, Run 1]
     ([(''AAPL'', CacheGet), (''AAPL'', CacheGet)], market_init))) = [''AAPL''] \<and>
   finnhub_calls (snd (run finnhub_demo [Run 0, Run 0, Run 0, Tick 30, Run 1, Run 1, Run 0]
     ([(''AAPL'', CacheGet), (''AAPL'', CacheGet)], market_init))) = [''AAPL'']"
proof -
  have miss: "cache_get (cache market_init) (clock market_init) (cache_key ''AAPL'') = None"
    by (simp add: market_init_def cache_get_def)
  have data: "finnhub_demo ''AAPL'' = Inr (projr (finnhub_demo ''AAPL''))"
    by (simp add: finnhub_demo_def)
  have d: "(30::nat) < 60" by simp
  have alt: "[Run 0, Run 1, Run 0, Run 1, Run 0, Run 1, Run 0, Run 1]
      \<in> shuffles [Run 0, Run 0, Run 0, Run 0] [Run 1, Run 1, Run 1, Run 1]"
    unfolding shuffles_4_4 by simp
  have late: "[Run 0, Run 0, Run 0, Run 1, Run 1, Run 0, Run 1, Run 1]
      \<in> shuffles [Run 0, Run 0, Run 0, Run 0] [Run 1, Run 1, Run 1, Run 1]"
    unfolding shuffles_4_4 by simp
  have none: "finnhub_calls market_init = []" by (simp add: market_init_def)
  from one_fetch_iff_read_after_write [where m = market_init and s = "''AAPL''"
      and finnhub = finnhub_demo, OF miss data alt d, THEN conjunct1] have a:
    "finnhub_calls (snd (run finnhub_demo [Run 0, Run 1, Run 0, Run 1, Run 0, Run 1, Run 0, Run 1]
       ([(''AAPL'', CacheGet), (''AAPL'', CacheGet)], market_init))) = [''AAPL'', ''AAPL'']"
    by (simp add: none reads_after_write_def)
  from one_fetch_iff_read_after_write [where m = market_init and s = "''AAPL''"
      and finnhub = finnhub_demo, OF miss data late d, THEN conjunct1] have b:
    "finnhub_calls (snd (run finnhub_demo [Run 0, Run 0, Run 0, Run 1, Run 1, Run 0, Run 1, Run 1]
       ([(''AAPL'', CacheGet), (''AAPL'', CacheGet)], market_init))) = [''AAPL'']"
    by (simp add: none reads_after_write_def)
  from one_fetch_iff_read_after_write [where m = market_init and s = "''AAPL''"
      and finnhub = finnhub_demo, OF miss data late d, THEN conjunct2] have c:
    "finnhub_calls (snd (run finnhub_demo [Run 0, Run 0, Run 0, Tick 30, Run 1, Run 1, Run 0]
       ([(''AAPL'', CacheGet), (''AAPL'', CacheGet)], market_init))) = [''AAPL'']"
    by (simp add: none)
  from miss a b c show ?thesis by (intro conjI)
qed

section \<open>The sliding window of the rate limiter\<close>

lemma dropWhile_sorted_filter:
  "sorted xs \<Longrightarrow> dropWhile (\<lambda>t. t < c) xs = filter (\<lambda>t. c \<le> t) (xs :: real list)"
proof (induction xs)
  case Nil
  show ?case by simp
next
  case (Cons x xs)
  show ?case
  proof (cases "x < c")
    case True
    with Cons show ?thesis by simp
  next
    case False
    with Cons.prems have "\<forall>y \<in> set xs. c \<le> y" by auto
    then have "filter (\<lambda>t. c \<le> t) xs = xs" by (simp add: filter_id_conv)
    with False show ?thesis by simp
  qed
qed

lemma length_filter_mono:
  "(\<And>x. x \<in> set xs \<Longrightarrow> P x \<Longrightarrow> Q x) \<Longrightarrow> length (filter P xs) \<le> length (filter Q xs)"
proof (induction xs)
  case Nil
  show ?case by simp
next
  case (Cons x xs)
  have "length (filter P xs) \<le> length (filter Q xs)"
    by (rule Cons.IH) (simp add: Cons.prems)
  moreover have "P x \<Longrightarrow> Q x" by (rule Cons.prems) simp_all
  ultimately show ?case by auto
qed

lemma budget_kept_window:
  "budget_kept mc w H \<Longrightarrow> int (length (filter (\<lambda>t. a \<le> t \<and> t \<le> a + w) H)) \<le> max 0 mc"
proof (induction H)
  case Nil
  show ?case by simp
next
  case (Cons s older)
  from Cons.prems have here: "int (length (filter (\<lambda>x. s - w \<le> x) (s # older))) \<le> mc"
    and rest: "budget_kept mc w older" by simp_all
  show ?case
  proof (cases "a \<le> s \<and> s \<le> a + w")
    case True
    have "length (filter (\<lambda>t. a \<le> t \<and> t \<le> a + w) (s # older))
            \<le> length (filter (\<lambda>x. s - w \<le> x) (s # older))"
      by (rule length_filter_mono) (use True in auto)
    with here show ?thesis by simp
  next
    case False
    with Cons.IH [OF rest] show ?thesis by auto
  qed
qed

lemma provider_calls_budget:
  assumes "sorted ts" and "sorted cs"
    and "\<forall>x \<in> set cs. \<forall>t \<in> set ts. x \<le> t"
    and "\<forall>t \<in> set ts. lo \<le> t - w"
    and "\<forall>c \<ge> lo. length (filter (\<lambda>x. c \<le> x) H) = length (filter (\<lambda>x. c \<le> x) cs)"
    and "budget_kept mc w H"
  shows "budget_kept mc w (rev (provider_calls ts \<lparr>max_calls = mc, window = w, calls = cs\<rparr>) @ H)"
  using assms
proof (induction ts arbitrary: cs H lo)
  case Nil
  then show ?case by simp
next
  case (Cons now ts)
  let ?cs = "dropWhile (\<lambda>t. t < now - w) cs"
  have cs': "?cs = filter (\<lambda>t. now - w \<le> t) cs"
    by (rule dropWhile_sorted_filter) (rule Cons.prems)
  have lo: "lo \<le> now - w" using Cons.prems(4) by simp
  have sorted_ts: "sorted ts" and now_le: "\<forall>t \<in> set ts. now \<le> t"
    using Cons.prems(1) by simp_all
  have sorted_cs': "sorted ?cs" unfolding cs' using Cons.prems(2) by (rule sorted_wrt_filter)
  have below: "\<forall>x \<in> set ?cs. x \<le> now" unfolding cs' using Cons.prems(3) by simp
  have below': "\<forall>x \<in> set ?cs. \<forall>t \<in> set ts. x \<le> t"
    unfolding cs' using Cons.prems(3) by simp
  have lo': "\<forall>t \<in> set ts. now - w \<le> t - w" using now_le by simp
  have count: "length (filter (\<lambda>x. c \<le> x) H) = length (filter (\<lambda>x. c \<le> x) ?cs)"
    if "now - w \<le> c" for c
  proof -
    have "filter (\<lambda>x. c \<le> x) ?cs = filter (\<lambda>x. c \<le> x) cs"
      unfolding cs' using that by (auto intro!: filter_cong)
    moreover have "lo \<le> c" using lo that by simp
    ultimately show ?thesis using Cons.prems(5) by simp
  qed
  show ?case
  proof (cases "int (length ?cs) < mc")
    case True
    have step: "provider_calls (now # ts) \<lparr>max_calls = mc, window = w, calls = cs\<rparr> =
        now # provider_calls ts \<lparr>max_calls = mc, window = w, calls = ?cs @ [now]\<rparr>"
      using True by (simp add: can_call_def)
    have "budget_kept mc w
        (rev (provider_calls ts \<lparr>max_calls = mc, window = w, calls = ?cs @ [now]\<rparr>) @ (now # H))"
    proof (rule Cons.IH [where lo = "now - w"])
      show "sorted ts" by (rule sorted_ts)
      show "sorted (?cs @ [now])" using sorted_cs' below by (simp add: sorted_append)
      show "\<forall>x \<in> set (?cs @ [now]). \<forall>t \<in> set ts. x \<le> t" using below' now_le by auto
      show "\<forall>t \<in> set ts. now - w \<le> t - w" by (rule lo')
      show "\<forall>c \<ge> now - w. length (filter (\<lambda>x. c \<le> x) (now # H)) =
              length (filter (\<lambda>x. c \<le> x) (?cs @ [now]))"
        using count by simp
      have "length (filter (\<lambda>x. now - w \<le> x) H) = length ?cs"
        using count [of "now - w"] by (simp add: cs')
      then show "budget_kept mc w (now # H)"
        using True Cons.prems(6) by simp
    qed
    then show ?thesis unfolding step by simp
  next
    case False
    have step: "provider_calls (now # ts) \<lparr>max_calls = mc, window = w, calls = cs\<rparr> =
        provider_calls ts \<lparr>max_calls = mc, window = w, calls = ?cs\<rparr>"
      using False by (simp add: can_call_def)
    have "budget_kept mc w
        (rev (provider_calls ts \<lparr>max_calls = mc, window = w, calls = ?cs\<rparr>) @ H)"
    proof (rule Cons.IH [where lo = "now - w"])
      show "sorted ts" by (rule sorted_ts)
      show "sorted ?cs" by (rule sorted_cs')
      show "\<forall>x \<in> set ?cs. \<forall>t \<in> set ts. x \<le> t" by (rule below')
      show "\<forall>t \<in> set ts. now - w \<le> t - w" by (rule lo')
      show "\<forall>c \<ge> now - w. length (filter (\<lambda>x. c \<le> x) H) = length (filter (\<lambda>x. c \<le> x) ?cs)"
        using count by simp
      show "budget_kept mc w H" by (rule Cons.prems)
    qed
    then show ?thesis unfolding step .
  qed
qed

lemma provider_calls_init_budget:
  assumes "sorted ts"
  shows "budget_kept mc w (rev (provider_calls ts (RateLimiter_init mc w)))"
proof -
  obtain lo :: real where lo: "\<forall>t \<in> set ts. lo \<le> t - w"
  proof (cases ts)
    case Nil
    then show ?thesis using that [of 0] by simp
  next
    case (Cons t0 ts')
    with assms show ?thesis using that [of "t0 - w"] by auto
  qed
  have "budget_kept mc w
      (rev (provider_calls ts \<lparr>max_calls = mc, window = w, calls = []\<rparr>) @ [])"
    by (rule provider_calls_budget [where lo = lo]) (use assms lo in simp_all)
  then show ?thesis by (simp add: RateLimiter_init_def)
qed

text \<open>
  C5, as the code has it. For clock readings that do not decrease, a caller that calls the
  provider only when \<open>can_call\<close> answers \<open>True\<close> never makes more than \<open>max_calls\<close>
  calls within any window \<open>[a, a + window]\<close>. A call that would exceed the budget is
  refused: \<open>can_call\<close> answers \<open>False\<close> and records nothing, the deque holding the
  unexpired earlier calls, at least \<open>max_calls\<close> of them. The limiter has no queue and
  knows no other provider.
\<close>

theorem rate_limit_window:
  "(sorted ts \<longrightarrow>
      int (length (filter (\<lambda>t. a \<le> t \<and> t \<le> a + w) (provider_calls ts (RateLimiter_init mc w))))
        \<le> max 0 mc) \<and>
   (\<not> fst (can_call now rl) \<longrightarrow>
      snd (can_call now rl) = rl\<lparr>calls := dropWhile (\<lambda>t. t < now - window rl) (calls rl)\<rparr> \<and>
      max_calls rl \<le> int (length (calls (snd (can_call now rl)))))"
proof (intro conjI impI)
  assume "sorted ts"
  then have "budget_kept mc w (rev (provider_calls ts (RateLimiter_init mc w)))"
    by (rule provider_calls_init_budget)
  then have "int (length (filter (\<lambda>t. a \<le> t \<and> t \<le> a + w)
      (rev (provider_calls ts (RateLimiter_init mc w))))) \<le> max 0 mc"
    by (rule budget_kept_window)
  then show "int (length (filter (\<lambda>t. a \<le> t \<and> t \<le> a + w)
      (provider_calls ts (RateLimiter_init mc w)))) \<le> max 0 mc"
    by (simp add: rev_filter [symmetric])
next
  assume "\<not> fst (can_call now rl)"
  then show "snd (can_call now rl) = rl\<lparr>calls := dropWhile (\<lambda>t. t < now - window rl) (calls rl)\<rparr>"
    by (simp add: can_call_def Let_def split: if_splits)
next
  assume "\<not> fst (can_call now rl)"
  then show "max_calls rl \<le> int (length (calls (snd (can_call now rl))))"
    by (simp add: can_call_def Let_def split: if_splits)
qed

lemma limiter_demo:
  "provider_calls [0, 1, 2, 60, 61, 62] (RateLimiter_init 2 60) = [0, 1, 61, 62]"
  by (simp add: RateLimiter_init_def can_call_def)

lemma limiter_full:
  "can_call 0 (RateLimiter_init 1 60) = (True, \<lparr>max_calls = 1, window = 60, calls = [0]\<rparr>)"
  "can_call 1 \<lparr>max_calls = 1, window = 60, calls = [0]\<rparr> =
     (False, \<lparr>max_calls = 1, window = 60, calls = [0]\<rparr>)"
  by (simp_all add: RateLimiter_init_def can_call_def)

text \<open>
  Two calls a minute: of six attempts the third and fourth are refused, and the window
  from 1 to 61 holds two calls. With a budget of one, the attempt at 1 is refused.
\<close>

theorem rate_limit_window_witness:
  "sorted [0, 1, 2, 60, 61, 62 :: real] \<and>
   provider_calls [0, 1, 2, 60, 61, 62] (RateLimiter_init 2 60) = [0, 1, 61, 62] \<and>
   int (length (filter (\<lambda>t. 1 \<le> t \<and> t \<le> 1 + 60)
     (provider_calls [0, 1, 2, 60, 61, 62] (RateLimiter_init 2 60)))) \<le> max 0 2 \<and>
   \<not> fst (can_call 1 \<lparr>max_calls = 1, window = 60, calls = [0]\<rparr>) \<and>
   max_calls \<lparr>max_calls = 1, window = 60, calls = [0]\<rparr>
     \<le> int (length (calls (snd (can_call 1 \<lparr>max_calls = 1, window = 60, calls = [0]\<rparr>))))"
proof -
  have s: "sorted [0, 1, 2, 60, 61, 62 :: real]" by simp
  have r: "\<not> fst (can_call 1 \<lparr>max_calls = 1, window = 60, calls = [0]\<rparr>)"
    by (simp add: limiter_full)
  note a = rate_limit_window [of "[0, 1, 2, 60, 61, 62]" 1 60 2, THEN conjunct1, rule_format, OF s]
  note b = rate_limit_window [of "[]" 0 0 0 1 "\<lparr>max_calls = 1, window = 60, calls = [0]\<rparr>",
      THEN conjunct2, rule_format, OF r, THEN conjunct2]
  from s limiter_demo a r b show ?thesis by (intro conjI)
qed

text \<open>
  C5 as stated fails in its second half: with a budget of one call a minute and a call
  made at 0, the attempt at 1 is refused, and the limiter after it is what it was before
  it; the provider receives the first call only, and \<open>wait_time\<close> tells the caller to
  come back in 59 seconds.
\<close>

theorem refused_call_not_queued:
  "can_call 1 (snd (can_call 0 (RateLimiter_init 1 60))) =
     (False, snd (can_call 0 (RateLimiter_init 1 60))) \<and>
   provider_calls [0, 1] (RateLimiter_init 1 60) = [0] \<and>
   wait_time 1 (snd (can_call 0 (RateLimiter_init 1 60))) = Inr 59"
  by (simp add: RateLimiter_init_def can_call_def wait_time_def)

section \<open>Untrained model\<close>

text \<open>On an optimizer whose model was never set, \<open>predict_returns\<close> raises.\<close>

lemma untrained_model_raises:
  "model self = None \<Longrightarrow>
   predict_returns truthy predict symbols self = Inl (ValueError ''Model not trained'')"
  by (simp add: predict_returns_def)

text \<open>
  After \<open>train_model\<close> has assigned the fresh model, the model is set whether or not the
  fit succeeds: when the fit raises, \<open>predict_returns\<close> asks the unfitted model.
\<close>

lemma predict_after_failed_fit:
  "alpha158 = Inr h \<Longrightarrow> alstm h = Inr fresh \<Longrightarrow> fit fresh h = Inl e \<Longrightarrow> truthy fresh \<Longrightarrow>
   predict_returns truthy predict symbols (fst (train_model alpha158 alstm fit self)) =
     predict fresh symbols"
  by (simp add: train_model_def predict_returns_def)


section \<open>Sum invariant\<close>

lemma sum_list_equal_weight:
  "symbols \<noteq> [] \<Longrightarrow> sum_list (map snd (equal_weight cs symbols)) = 1 - cash_reserve_fraction cs"
  by (simp add: equal_weight_def comp_def sum_list_triv)

lemma emit_sum_invariant: "emit st cs ws = Some a \<Longrightarrow> sum_invariant cs (weights a)"
  by (auto simp: emit_def split: if_splits)

lemma fallback_sum_invariant: "fallback cs symbols = Inr a \<Longrightarrow> sum_invariant cs (weights a)"
  by (auto simp: fallback_def split: if_splits option.splits dest: emit_sum_invariant)

lemma optimize_sum_invariant:
  "optimize solve margin symbols signals cs = Inr a \<Longrightarrow> sum_invariant cs (weights a)"
  by (auto simp: optimize_def Option.bind_eq_Some_conv
      split: sum.splits signal_error.splits option.splits
      dest: emit_sum_invariant fallback_sum_invariant)

lemma fallback_succeeds:
  assumes "0 \<le> cash_reserve_fraction cs" "cash_reserve_fraction cs \<le> 1" "symbols \<noteq> []"
  shows "fallback cs symbols = Inr \<lparr>weights = equal_weight cs symbols, status = Fallback\<rparr>"
  using assms by (simp add: fallback_def emit_def sum_invariant_def sum_list_equal_weight)

lemma optimize_succeeds:
  assumes "0 \<le> cash_reserve_fraction cs" "cash_reserve_fraction cs \<le> 1" "symbols \<noteq> []"
  shows "\<exists>a. optimize solve margin symbols signals cs = Inr a"
  using fallback_succeeds [OF assms]
  by (auto simp: optimize_def split: sum.splits signal_error.splits option.splits)

text \<open>
  Handed \<open>ModelUnavailable\<close> in place of signals, the optimizer goes to the equal-weight
  fallback without asking the solver.
\<close>

lemma optimize_model_unavailable:
  assumes "0 \<le> cash_reserve_fraction cs" "cash_reserve_fraction cs \<le> 1" "symbols \<noteq> []"
  shows "optimize solve margin symbols (Inl ModelUnavailable) cs =
           Inr \<lparr>weights = equal_weight cs symbols, status = Fallback\<rparr>"
  using fallback_succeeds [OF assms] by (simp add: optimize_def)

text \<open>
  C1. Whatever the solver returns, an Allocation the optimizer emits has invested weights
  that sum to \<open>1 - cash_reserve_fraction\<close> within 1e-6; and for a cash reserve between 0
  and 1 and at least one symbol the optimizer does emit an Allocation.
\<close>

theorem allocation_sum_invariant:
  "(optimize solve margin symbols signals cs = Inr a \<longrightarrow>
      \<bar>sum_list (map snd (weights a)) - (1 - cash_reserve_fraction cs)\<bar> \<le> 1 / 1000000) \<and>
   (0 \<le> cash_reserve_fraction cs \<and> cash_reserve_fraction cs \<le> 1 \<and> symbols \<noteq> [] \<longrightarrow>
      (\<exists>b. optimize solve margin symbols signals cs = Inr b \<and>
         \<bar>sum_list (map snd (weights b)) - (1 - cash_reserve_fraction cs)\<bar> \<le> 1 / 1000000))"
proof (intro conjI impI)
  assume "optimize solve margin symbols signals cs = Inr a"
  then have "sum_invariant cs (weights a)" by (rule optimize_sum_invariant)
  then show "\<bar>sum_list (map snd (weights a)) - (1 - cash_reserve_fraction cs)\<bar> \<le> 1 / 1000000"
    by (simp add: sum_invariant_def)
next
  assume v: "0 \<le> cash_reserve_fraction cs \<and> cash_reserve_fraction cs \<le> 1 \<and> symbols \<noteq> []"
  then obtain b where b: "optimize solve margin symbols signals cs = Inr b"
    using optimize_succeeds by blast
  then have "sum_invariant cs (weights b)" by (rule optimize_sum_invariant)
  with b show "\<exists>b. optimize solve margin symbols signals cs = Inr b \<and>
         \<bar>sum_list (map snd (weights b)) - (1 - cash_reserve_fraction cs)\<bar> \<le> 1 / 1000000"
    by (auto simp: sum_invariant_def)
qed

text \<open>
  A solver whose weights sum to one half is not let through: the ladder ends in the
  equal-weight fallback.
\<close>

lemma optimize_demo:
  "optimize solve_unnormalized 0.2 [''A'', ''B''] (Inr []) constraint_demo =
     Inr \<lparr>weights = [(''A'', 0.475), (''B'', 0.475)], status = Fallback\<rparr>"
  by (simp add: optimize_def solve_unnormalized_def emit_def sum_invariant_def constraint_demo_def
      relax_sector_caps_def fallback_def equal_weight_def)

text \<open>Two symbols with a cash reserve of 5 percent: 47.5 percent each.\<close>

theorem allocation_sum_invariant_witness:
  "optimize solve_unnormalized 0.2 [''A'', ''B''] (Inr []) constraint_demo =
     Inr \<lparr>weights = [(''A'', 0.475), (''B'', 0.475)], status = Fallback\<rparr> \<and>
   \<bar>sum_list (map snd (weights \<lparr>weights = [(''A'', 0.475), (''B'', 0.475)], status = Fallback\<rparr>))
      - (1 - cash_reserve_fraction constraint_demo)\<bar> \<le> 1 / 1000000 \<and>
   (\<exists>b. optimize solve_unnormalized 0.2 [''A'', ''B''] (Inr []) constraint_demo = Inr b \<and>
      \<bar>sum_list (map snd (weights b)) - (1 - cash_reserve_fraction constraint_demo)\<bar>
        \<le> 1 / 1000000)"
proof -
  have v: "0 \<le> cash_reserve_fraction constraint_demo \<and> cash_reserve_fraction constraint_demo \<le> 1
      \<and> [''A'', ''B''] \<noteq> []"
    by (simp add: constraint_demo_def)
  note a = allocation_sum_invariant [THEN conjunct1, rule_format, OF optimize_demo]
  note b = allocation_sum_invariant [of solve_unnormalized "0.2" "[''A'', ''B'']" "Inr []"
      constraint_demo, THEN conjunct2, rule_format, OF v]
  from optimize_demo a b show ?thesis by (intro conjI)
qed

section \<open>Listed assets\<close>

lemma map_enumerate_snd: "map (\<lambda>x. f (snd x)) (enumerate n xs) = map f xs"
  by (induction xs arbitrary: n) simp_all

lemma simulated_confidence_range:
  assumes "0 \<le> r" "r < 1"
  shows "75 \<le> simulated_confidence r \<and> simulated_confidence r \<le> 94"
proof -
  have "0 \<le> \<lfloor>r * 20\<rfloor>" using assms by simp
  moreover have "\<lfloor>r * 20\<rfloor> < 20" using assms by (simp add: floor_less_iff)
  ultimately show ?thesis by (simp add: simulated_confidence_def)
qed

text \<open>
  C6, as the code has it. For a fixed API response the listed assets are its first eight
  stocks in the order of the response, the signal of each is determined by its
  \<open>change_percent\<close>, and its confidence is a simulated integer between 75 and 94 that
  depends on the draw of \<open>Math.random()\<close>, not on the input. Nothing is sorted.
\<close>

theorem assets_in_api_order:
  "map asset_symbol (popularAssets random data) = map stock_symbol (take 8 data) \<and>
   map aiSignal (popularAssets random data) =
     map (\<lambda>s. signal_of_change (stock_change_percent s)) (take 8 data) \<and>
   ((\<forall>i. 0 \<le> random i \<and> random i < 1) \<longrightarrow>
      (\<forall>a \<in> set (popularAssets random data). 75 \<le> asset_confidence a \<and> asset_confidence a \<le> 94))"
proof (intro conjI impI ballI)
  show "map asset_symbol (popularAssets random data) = map stock_symbol (take 8 data)"
    by (simp add: popularAssets_def to_asset_def split_def comp_def map_enumerate_snd)
  show "map aiSignal (popularAssets random data) =
     map (\<lambda>s. signal_of_change (stock_change_percent s)) (take 8 data)"
    using map_enumerate_snd [of "\<lambda>s. signal_of_change (stock_change_percent s)" 0 "take 8 data"]
    by (simp add: popularAssets_def to_asset_def split_def comp_def)
next
  fix a
  assume r: "\<forall>i. 0 \<le> random i \<and> random i < 1" and "a \<in> set (popularAssets random data)"
  then obtain i s where "a = to_asset s (random i)"
    by (auto simp: popularAssets_def)
  with r simulated_confidence_range [of "random i"]
  show "75 \<le> asset_confidence a" and "asset_confidence a \<le> 94"
    by (simp_all add: to_asset_def)
qed

lemma assets_demo:
  "popularAssets (\<lambda>i. 0) stocks_demo =
     [\<lparr>asset_symbol = ''MSFT'', asset_name = ''Microsoft Corp.'', asset_price = 300,
       asset_change = 1, aiSignal = buy, asset_confidence = 75\<rparr>,
      \<lparr>asset_symbol = ''AAPL'', asset_name = ''Apple Inc.'', asset_price = 200,
       asset_change = 3, aiSignal = strong_buy, asset_confidence = 75\<rparr>]"
  by (simp add: popularAssets_def stocks_demo_def to_asset_def getCompanyName_def names_def
      signal_of_change_def simulated_confidence_def)

text \<open>Two stocks, listed as delivered.\<close>

theorem assets_in_api_order_witness:
  "map asset_symbol (popularAssets (\<lambda>i. 0) stocks_demo) = [''MSFT'', ''AAPL''] \<and>
   map aiSignal (popularAssets (\<lambda>i. 0) stocks_demo) = [buy, strong_buy] \<and>
   75 \<le> asset_confidence (hd (popularAssets (\<lambda>i. 0) stocks_demo)) \<and>
   asset_confidence (hd (popularAssets (\<lambda>i. 0) stocks_demo)) \<le> 94"
proof -
  have r: "\<forall>i::nat. 0 \<le> (0::real) \<and> (0::real) < 1" by simp
  have m: "hd (popularAssets (\<lambda>i. 0) stocks_demo) \<in> set (popularAssets (\<lambda>i. 0) stocks_demo)"
    by (simp add: assets_demo)
  note t = assets_in_api_order [of "\<lambda>i. 0" stocks_demo]
  have a: "map asset_symbol (popularAssets (\<lambda>i. 0) stocks_demo) = [''MSFT'', ''AAPL'']"
    using t [THEN conjunct1] by (simp add: stocks_demo_def)
  have b: "map aiSignal (popularAssets (\<lambda>i. 0) stocks_demo) = [buy, strong_buy]"
    using t [THEN conjunct2, THEN conjunct1] by (simp add: stocks_demo_def signal_of_change_def)
  note c = t [THEN conjunct2, THEN conjunct2, rule_format, OF r [rule_format] m]
  from a b c show ?thesis by (intro conjI) simp_all
qed

text \<open>
  C6 as stated fails: on the same two stocks two runs with different draws give different
  lists, and the list keeps the order of the response, MSFT with change 1 before AAPL with
  change 3, which the ranking policy would reverse.
\<close>

theorem ranking_not_reproduced:
  "popularAssets (\<lambda>i. 0) stocks_demo \<noteq> popularAssets (\<lambda>i. 1 / 2) stocks_demo \<and>
   map as_signal (popularAssets (\<lambda>i. 0) stocks_demo) = [(''MSFT'', 1, 75), (''AAPL'', 3, 75)] \<and>
   \<not> ranked_spec (map as_signal (popularAssets (\<lambda>i. 0) stocks_demo)) \<and>
   ranked_spec [(''AAPL'', 3, 75), (''MSFT'', 1, 75)]"
  by (simp add: popularAssets_def stocks_demo_def to_asset_def getCompanyName_def names_def
      signal_of_change_def simulated_confidence_def as_signal_def ranked_spec_def
      ranks_before_spec_def)

end
